theory Spec2Isabelle
  imports Complex_Main "HOL-Library.Word"
begin

section \<open>Data model\<close>

text \<open>
  The graders of \<^verbatim>\<open>speech_coach_processor.py\<close> return one of the string literals
  \<^verbatim>\<open>"A"\<close>, \<^verbatim>\<open>"B"\<close>, \<^verbatim>\<open>"C"\<close>; the three values are an enumeration.
\<close>

datatype grade = A | B | C

text \<open>
  The exceptions of the model are the subclasses of Python's \<^verbatim>\<open>Exception\<close>, each with the
  text that \<^verbatim>\<open>str(e)\<close> gives. \<open>Exception\<close> stands for every subclass that no handler of
  the source names.
\<close>

datatype exn =
    TimeoutError
  | BinasciiError string
  | ConnectionClosed string
  | Exception string

fun str_exn :: "exn \<Rightarrow> string" where
  "str_exn TimeoutError = []"
| "str_exn (BinasciiError m) = m"
| "str_exn (ConnectionClosed m) = m"
| "str_exn (Exception m) = m"

text \<open>
  The keypoint array \<^verbatim>\<open>keypoints\<close> is a list of rows; in a row \<^verbatim>\<open>kp\<close>, \<^verbatim>\<open>kp[0]\<close> is x,
  \<^verbatim>\<open>kp[1]\<close> is y and \<^verbatim>\<open>kp[2]\<close> the confidence. A pose model without confidences gives
  rows of two entries. An entry is the real number that the float32 value stands for.

  The result of a numpy division: a division by zero does not raise in numpy, it yields
  an infinity or NaN, and every ordering comparison with NaN is false.
\<close>

datatype npfloat = Finite real | PosInf | NegInf | NaN

definition np_div :: "real \<Rightarrow> real \<Rightarrow> npfloat" where
  "np_div a b =
     (if b \<noteq> 0 then Finite (a / b)
      else if 0 < a then PosInf
      else if a < 0 then NegInf
      else NaN)"

fun np_less :: "npfloat \<Rightarrow> npfloat \<Rightarrow> bool" where
  "np_less (Finite a) (Finite b) = (a < b)"
| "np_less NaN _ = False"
| "np_less _ NaN = False"
| "np_less PosInf _ = False"
| "np_less NegInf NegInf = False"
| "np_less NegInf _ = True"
| "np_less (Finite a) PosInf = True"
| "np_less (Finite a) NegInf = False"

section \<open>The arithmetic of numpy\<close>

text \<open>
  The graders of eye contact, framing and lighting compute with numpy's floating-point
  numbers: the keypoint entries and the histogram of OpenCV are float32, the numbers of
  Python (literals, \<^verbatim>\<open>width / 2\<close>) are float64, and every operation rounds its result. Which
  operations run in float32 and which in float64 is decided by the promotion rules of the
  installed numpy, and the order of the additions of \<^verbatim>\<open>np.sum\<close> by its implementation.
  The arithmetic is therefore a parameter of the graders: the type \<open>'f\<close> of the numbers,
  how an entry of the keypoint array (\<open>f_coord\<close>), a number of Python (\<open>f_py\<close>) and a
  count of the histogram (\<open>f_count\<close>) enter it, the operations, the comparison \<^verbatim>\<open><\<close>,
  and \<^verbatim>\<open>np.sum\<close>.
\<close>

record 'f arith =
  f_coord :: "real \<Rightarrow> 'f"
  f_py :: "real \<Rightarrow> 'f"
  f_count :: "nat \<Rightarrow> 'f"
  f_add :: "'f \<Rightarrow> 'f \<Rightarrow> 'f"
  f_sub :: "'f \<Rightarrow> 'f \<Rightarrow> 'f"
  f_div :: "'f \<Rightarrow> 'f \<Rightarrow> 'f"
  f_abs :: "'f \<Rightarrow> 'f"
  f_less :: "'f \<Rightarrow> 'f \<Rightarrow> bool"
  f_sum :: "'f list \<Rightarrow> 'f"

text \<open>Arithmetic without rounding, on the real numbers.\<close>

definition real_arith :: "real arith" where
  "real_arith =
     \<lparr>f_coord = (\<lambda>x. x), f_py = (\<lambda>x. x), f_count = real,
      f_add = (+), f_sub = (-), f_div = (/), f_abs = abs, f_less = (<),
      f_sum = sum_list\<rparr>"

text \<open>
  The arithmetic of IEEE 754 binary32, as numpy 2 uses it throughout when an operand is
  float32: a result is rounded to the nearest number with a significand of 24 bits, a tie to
  the one with an even significand; the smallest exponent is -126, and a rounded result of
  magnitude 2^128 or more is an infinity. \<open>binary_exponent\<close> finds the exponent by
  halving or doubling, at most 300 times, which covers the exponents of the format.
  The sum of a list is taken from left to right; numpy adds in blocks, which can give
  other roundings when more than two summands differ from zero.
\<close>

definition pow2 :: "int \<Rightarrow> real" where
  "pow2 k = (if 0 \<le> k then 2 ^ nat k else 1 / 2 ^ nat (- k))"

fun binary_exponent :: "nat \<Rightarrow> real \<Rightarrow> int" where
  "binary_exponent 0 x = 0"
| "binary_exponent (Suc fuel) x =
     (if 2 \<le> x then binary_exponent fuel (x / 2) + 1
      else if x < 1 then binary_exponent fuel (2 * x) - 1
      else 0)"

definition round_half_even :: "real \<Rightarrow> int" where
  "round_half_even x =
     (let n = \<lfloor>x\<rfloor>; r = x - of_int n
      in if r < 1/2 then n else if 1/2 < r then n + 1 else if even n then n else n + 1)"

definition round_float32 :: "real \<Rightarrow> real" where
  "round_float32 x =
     (if x = 0 then 0
      else (let e = max (- 126) (binary_exponent 300 \<bar>x\<bar>);
                ulp = pow2 (e - 23)
            in of_int (round_half_even (x / ulp)) * ulp))"

definition to_float32 :: "real \<Rightarrow> npfloat" where
  "to_float32 x =
     (let r = round_float32 x
      in if 2 ^ 128 \<le> r then PosInf else if r \<le> - (2 ^ 128) then NegInf else Finite r)"

fun f32_add :: "npfloat \<Rightarrow> npfloat \<Rightarrow> npfloat" where
  "f32_add (Finite a) (Finite b) = to_float32 (a + b)"
| "f32_add NaN _ = NaN"
| "f32_add _ NaN = NaN"
| "f32_add PosInf NegInf = NaN"
| "f32_add NegInf PosInf = NaN"
| "f32_add PosInf _ = PosInf"
| "f32_add _ PosInf = PosInf"
| "f32_add NegInf _ = NegInf"
| "f32_add _ NegInf = NegInf"

fun np_negative :: "npfloat \<Rightarrow> npfloat" where
  "np_negative (Finite a) = Finite (- a)"
| "np_negative PosInf = NegInf"
| "np_negative NegInf = PosInf"
| "np_negative NaN = NaN"

definition f32_sub :: "npfloat \<Rightarrow> npfloat \<Rightarrow> npfloat" where
  "f32_sub x y = f32_add x (np_negative y)"

fun f32_abs :: "npfloat \<Rightarrow> npfloat" where
  "f32_abs (Finite a) = Finite \<bar>a\<bar>"
| "f32_abs PosInf = PosInf"
| "f32_abs NegInf = PosInf"
| "f32_abs NaN = NaN"

text \<open>A zero divisor is taken as positive: the sign of a zero is not part of \<open>npfloat\<close>.\<close>

fun f32_div :: "npfloat \<Rightarrow> npfloat \<Rightarrow> npfloat" where
  "f32_div (Finite a) (Finite b) = (if b \<noteq> 0 then to_float32 (a / b) else np_div a b)"
| "f32_div NaN _ = NaN"
| "f32_div _ NaN = NaN"
| "f32_div (Finite a) _ = Finite 0"
| "f32_div PosInf (Finite b) = (if b < 0 then NegInf else PosInf)"
| "f32_div NegInf (Finite b) = (if b < 0 then PosInf else NegInf)"
| "f32_div _ _ = NaN"

definition float32_arith :: "npfloat arith" where
  "float32_arith =
     \<lparr>f_coord = to_float32, f_py = to_float32, f_count = (\<lambda>n. to_float32 (real n)),
      f_add = f32_add, f_sub = f32_sub, f_div = f32_div, f_abs = f32_abs, f_less = np_less,
      f_sum = foldl f32_add (Finite 0)\<rparr>"

text \<open>
  \<^verbatim>\<open>keypoints[i] if len(keypoints) > i and keypoints[i][2] > self.conf_threshold else None\<close>.
  The read of \<^verbatim>\<open>keypoints[i][2]\<close> raises \<^verbatim>\<open>IndexError\<close> when the row has no third entry.
\<close>

definition select_keypoint :: "real \<Rightarrow> real list list \<Rightarrow> nat \<Rightarrow> exn + real list option" where
  "select_keypoint conf_threshold keypoints i =
     (if length keypoints > i then
        (if length (keypoints ! i) > 2 then
           (if keypoints ! i ! 2 > conf_threshold then Inr (Some (keypoints ! i)) else Inr None)
         else Inl (Exception ''index 2 is out of bounds''))
      else Inr None)"

section \<open>The graders\<close>

text \<open>
  Each grader runs in a \<^verbatim>\<open>try\<close> whose handler returns \<^verbatim>\<open>"C"\<close>: the branches \<open>Inl e\<close>
  below. After a selection has succeeded the row has three entries, and the reads of
  \<^verbatim>\<open>kp[0]\<close> and \<^verbatim>\<open>kp[1]\<close> are in range. \<^verbatim>\<open>width / 2\<close> divides two integers of Python and is
  exact for the sizes that a frame can have.
\<close>

definition analyze_eye_contact ::
  "'f arith \<Rightarrow> real \<Rightarrow> real list list \<Rightarrow> nat \<Rightarrow> nat \<Rightarrow> grade" where
  "analyze_eye_contact ar conf_threshold keypoints width height =
     (case select_keypoint conf_threshold keypoints 0 of Inl e \<Rightarrow> C | Inr nose \<Rightarrow>
      case select_keypoint conf_threshold keypoints 1 of Inl e \<Rightarrow> C | Inr left_eye \<Rightarrow>
      case select_keypoint conf_threshold keypoints 2 of Inl e \<Rightarrow> C | Inr right_eye \<Rightarrow>
      (case (nose, left_eye, right_eye) of
        (Some nose, Some left_eye, Some right_eye) \<Rightarrow>
          (let face_center_x =
                 f_div ar (f_add ar (f_coord ar (left_eye ! 0)) (f_coord ar (right_eye ! 0)))
                   (f_py ar 2);
               screen_center_x = f_py ar (real width / 2);
               horizontal_offset =
                 f_div ar (f_abs ar (f_sub ar face_center_x screen_center_x)) screen_center_x;
               eye_distance =
                 f_abs ar (f_sub ar (f_coord ar (left_eye ! 0)) (f_coord ar (right_eye ! 0)));
               vertical_diff =
                 f_abs ar (f_sub ar (f_coord ar (left_eye ! 1)) (f_coord ar (right_eye ! 1)));
               tilt_ratio = (if f_less ar (f_py ar 0) eye_distance
                             then f_div ar vertical_diff eye_distance
                             else f_py ar 0)
           in if f_less ar horizontal_offset (f_py ar (1/10))
                 \<and> f_less ar tilt_ratio (f_py ar (1/10))
              then A
              else if f_less ar horizontal_offset (f_py ar (2/10))
                 \<and> f_less ar tilt_ratio (f_py ar (2/10))
              then B
              else C)
      | _ \<Rightarrow> C))"

definition analyze_framing ::
  "'f arith \<Rightarrow> real \<Rightarrow> real list list \<Rightarrow> nat \<Rightarrow> nat \<Rightarrow> grade" where
  "analyze_framing ar conf_threshold keypoints width height =
     (case select_keypoint conf_threshold keypoints 0 of Inl e \<Rightarrow> C | Inr nose \<Rightarrow>
      case select_keypoint conf_threshold keypoints 5 of Inl e \<Rightarrow> C | Inr left_shoulder \<Rightarrow>
      case select_keypoint conf_threshold keypoints 6 of Inl e \<Rightarrow> C | Inr right_shoulder \<Rightarrow>
      (case (nose, left_shoulder, right_shoulder) of
        (Some nose, Some left_shoulder, Some right_shoulder) \<Rightarrow>
          (let person_center_x =
                 f_div ar (f_add ar (f_coord ar (left_shoulder ! 0))
                                    (f_coord ar (right_shoulder ! 0)))
                   (f_py ar 2);
               screen_center_x = f_py ar (real width / 2);
               horizontal_offset =
                 f_div ar (f_abs ar (f_sub ar person_center_x screen_center_x)) screen_center_x;
               shoulder_width =
                 f_abs ar (f_sub ar (f_coord ar (left_shoulder ! 0))
                                    (f_coord ar (right_shoulder ! 0)));
               frame_ratio = f_div ar shoulder_width (f_py ar (real width));
               head_y_ratio = f_div ar (f_coord ar (nose ! 1)) (f_py ar (real height))
           in if f_less ar horizontal_offset (f_py ar (15/100))
                 \<and> (f_less ar (f_py ar (1/10)) frame_ratio
                    \<and> f_less ar frame_ratio (f_py ar (4/10)))
                 \<and> (f_less ar (f_py ar (1/10)) head_y_ratio
                    \<and> f_less ar head_y_ratio (f_py ar (4/10)))
              then A
              else if f_less ar horizontal_offset (f_py ar (25/100))
                 \<and> (f_less ar (f_py ar (5/100)) frame_ratio
                    \<and> f_less ar frame_ratio (f_py ar (5/10)))
                 \<and> (f_less ar (f_py ar (5/100)) head_y_ratio
                    \<and> f_less ar head_y_ratio (f_py ar (5/10)))
              then B
              else C)
      | _ \<Rightarrow> C))"

text \<open>
  The two ratios of \<^verbatim>\<open>_analyze_posture\<close>, \<^verbatim>\<open>shoulder_tilt\<close> and \<^verbatim>\<open>spine_angle\<close>, from the
  four selected rows.
\<close>

definition posture_ratios ::
  "real list \<Rightarrow> real list \<Rightarrow> real list \<Rightarrow> real list \<Rightarrow> npfloat \<times> npfloat" where
  "posture_ratios left_shoulder right_shoulder left_hip right_hip =
     (let shoulder_y_diff = \<bar>left_shoulder ! 1 - right_shoulder ! 1\<bar>;
          shoulder_distance = \<bar>left_shoulder ! 0 - right_shoulder ! 0\<bar>;
          shoulder_tilt = (if shoulder_distance > 0
                           then np_div shoulder_y_diff shoulder_distance else Finite 0);
          shoulder_center_y = (left_shoulder ! 1 + right_shoulder ! 1) / 2;
          hip_center_y = (left_hip ! 1 + right_hip ! 1) / 2;
          spine_angle = (if shoulder_distance > 0
                         then np_div \<bar>shoulder_center_y - hip_center_y\<bar> shoulder_distance
                         else Finite 0)
      in (shoulder_tilt, spine_angle))"

definition analyze_posture :: "real \<Rightarrow> real list list \<Rightarrow> grade" where
  "analyze_posture conf_threshold keypoints =
     (case select_keypoint conf_threshold keypoints 5 of Inl e \<Rightarrow> C | Inr left_shoulder \<Rightarrow>
      case select_keypoint conf_threshold keypoints 6 of Inl e \<Rightarrow> C | Inr right_shoulder \<Rightarrow>
      case select_keypoint conf_threshold keypoints 11 of Inl e \<Rightarrow> C | Inr left_hip \<Rightarrow>
      case select_keypoint conf_threshold keypoints 12 of Inl e \<Rightarrow> C | Inr right_hip \<Rightarrow>
      (case (left_shoulder, right_shoulder, left_hip, right_hip) of
        (Some left_shoulder, Some right_shoulder, Some left_hip, Some right_hip) \<Rightarrow>
          (case posture_ratios left_shoulder right_shoulder left_hip right_hip of
             (shoulder_tilt, spine_angle) \<Rightarrow>
               if np_less shoulder_tilt (Finite (5/100)) \<and> np_less spine_angle (Finite (1/10))
               then A
               else if np_less shoulder_tilt (Finite (1/10)) \<and> np_less spine_angle (Finite (2/10))
               then B
               else C)
      | _ \<Rightarrow> C))"

section \<open>Lighting\<close>

text \<open>
  A frame is the array \<^verbatim>\<open>frame_array\<close>: \<^verbatim>\<open>frame_array.shape[:2]\<close> gives height and
  width, the pixels are triples of bytes in row-major order.
\<close>

type_synonym pixel = "8 word \<times> 8 word \<times> 8 word"

record frame =
  frame_height :: nat
  frame_width :: nat
  frame_pixels :: "pixel list"

text \<open>
  \<^verbatim>\<open>cv2.cvtColor(frame_array, cv2.COLOR_RGB2GRAY)\<close>: the per-pixel conversion belongs to
  OpenCV and is a parameter; an empty array is refused with an exception.
\<close>

definition cvtColor_RGB2GRAY :: "(pixel \<Rightarrow> 8 word) \<Rightarrow> frame \<Rightarrow> exn + 8 word list" where
  "cvtColor_RGB2GRAY rgb2gray frame_array =
     (if frame_pixels frame_array = [] then Inl (Exception ''cv2.error'')
      else Inr (map rgb2gray (frame_pixels frame_array)))"

text \<open>
  \<^verbatim>\<open>np.mean\<close> and \<^verbatim>\<open>np.std\<close> of the bytes of the grey image compute in float64; they are
  taken as the mean and the standard deviation of the intensities.
\<close>

definition np_mean :: "real list \<Rightarrow> real" where
  "np_mean xs = sum_list xs / real (length xs)"

definition np_std :: "real list \<Rightarrow> real" where
  "np_std xs = sqrt (np_mean (map (\<lambda>x. (x - np_mean xs)\<^sup>2) xs))"

text \<open>
  \<^verbatim>\<open>cv2.calcHist([gray], [0], None, [256], [0, 256])\<close>: bin \<open>b\<close> holds the number of the
  pixels of intensity \<open>b\<close>, as a float32.
\<close>

definition calcHist :: "'f arith \<Rightarrow> 8 word list \<Rightarrow> 'f list" where
  "calcHist ar gray =
     map (\<lambda>b. f_count ar (length (filter (\<lambda>v. unat v = b) gray))) [0..<256]"

definition intensities :: "8 word list \<Rightarrow> real list" where
  "intensities gray = map (\<lambda>v. real (unat v)) gray"

text \<open>
  \<^verbatim>\<open>hist.ravel() / hist.sum()\<close> divides every bin by the sum of the bins, and the two
  ratios are the sums of the slices \<^verbatim>\<open>[200:]\<close> and \<^verbatim>\<open>[:50]\<close>, all in the arithmetic of the
  histogram.
\<close>

definition analyze_lighting :: "'f arith \<Rightarrow> (pixel \<Rightarrow> 8 word) \<Rightarrow> frame \<Rightarrow> grade" where
  "analyze_lighting ar rgb2gray frame_array =
     (case cvtColor_RGB2GRAY rgb2gray frame_array of
        Inl e \<Rightarrow> C
      | Inr gray \<Rightarrow>
          (let brightness = np_mean (intensities gray);
               contrast = np_std (intensities gray);
               hist = calcHist ar gray;
               hist_normalized = map (\<lambda>h. f_div ar h (f_sum ar hist)) hist;
               overexposed_ratio = f_sum ar (drop 200 hist_normalized);
               underexposed_ratio = f_sum ar (take 50 hist_normalized)
           in if (100 < brightness \<and> brightness < 180)
                 \<and> contrast > 30
                 \<and> f_less ar overexposed_ratio (f_py ar (1/10))
                 \<and> f_less ar underexposed_ratio (f_py ar (1/10))
              then A
              else if (80 < brightness \<and> brightness < 200)
                 \<and> contrast > 20
                 \<and> f_less ar overexposed_ratio (f_py ar (2/10))
                 \<and> f_less ar underexposed_ratio (f_py ar (2/10))
              then B
              else C))"

section \<open>Explanation\<close>

text \<open>Python's \<^verbatim>\<open>sep.join(xs)\<close>.\<close>

fun join :: "string \<Rightarrow> string list \<Rightarrow> string" where
  "join sep [] = []"
| "join sep [x] = x"
| "join sep (x # y # ys) = x @ sep @ join sep (y # ys)"

definition generate_explanation :: "grade \<Rightarrow> grade \<Rightarrow> grade \<Rightarrow> grade \<Rightarrow> string" where
  "generate_explanation eye_contact framing posture lighting =
     (let explanations = [];
          explanations = explanations @
            [if eye_contact = A then ''Great eye contact! You're looking directly at the camera.''
             else if eye_contact = B then ''Good eye contact. Try to look more directly at the camera.''
             else ''Focus on looking directly at the camera for better engagement.''];
          explanations = explanations @
            [if framing = A then ''Perfect framing! You're well positioned in the frame.''
             else if framing = B then ''Good framing. Consider adjusting your position slightly.''
             else ''Try to center yourself better in the frame.''];
          explanations = explanations @
            [if posture = A then ''Excellent posture! Keep your shoulders back and head up.''
             else if posture = B then ''Good posture. Try to sit up a bit straighter.''
             else ''Focus on maintaining better posture - shoulders back, head up.''];
          explanations = explanations @
            [if lighting = A then ''Perfect lighting! The camera is picking up your face clearly.''
             else if lighting = B then ''Good lighting. Consider adjusting your lighting slightly.''
             else ''Try to improve your lighting - ensure your face is well lit.'']
      in join '' '' explanations)"

text \<open>
  The table of canned sentences, one per dimension and grade, as the specification
  describes the explanation; it is compared with \<open>generate_explanation\<close> below.
\<close>

datatype dimension = Eye_contact | Framing | Posture | Lighting

fun canned_sentence :: "dimension \<Rightarrow> grade \<Rightarrow> string" where
  "canned_sentence Eye_contact A = ''Great eye contact! You're looking directly at the camera.''"
| "canned_sentence Eye_contact B = ''Good eye contact. Try to look more directly at the camera.''"
| "canned_sentence Eye_contact C = ''Focus on looking directly at the camera for better engagement.''"
| "canned_sentence Framing A = ''Perfect framing! You're well positioned in the frame.''"
| "canned_sentence Framing B = ''Good framing. Consider adjusting your position slightly.''"
| "canned_sentence Framing C = ''Try to center yourself better in the frame.''"
| "canned_sentence Posture A = ''Excellent posture! Keep your shoulders back and head up.''"
| "canned_sentence Posture B = ''Good posture. Try to sit up a bit straighter.''"
| "canned_sentence Posture C = ''Focus on maintaining better posture - shoulders back, head up.''"
| "canned_sentence Lighting A = ''Perfect lighting! The camera is picking up your face clearly.''"
| "canned_sentence Lighting B = ''Good lighting. Consider adjusting your lighting slightly.''"
| "canned_sentence Lighting C = ''Try to improve your lighting - ensure your face is well lit.''"

definition all_sentences :: "string list" where
  "all_sentences =
     concat (map (\<lambda>d. map (canned_sentence d) [A, B, C]) [Eye_contact, Framing, Posture, Lighting])"

section \<open>The processor\<close>

record analysis =
  eye_contact :: grade
  framing :: grade
  posture :: grade
  lighting :: grade
  explanation :: string

text \<open>
  The state of a \<^verbatim>\<open>SpeechCoachProcessor\<close> that the analysis reads and writes.
  \<open>executor_shutdown\<close> and \<open>executor_submitted\<close> are the state of the
  \<^verbatim>\<open>ThreadPoolExecutor\<close>: whether \<^verbatim>\<open>shutdown\<close> was called on it, and the work items it
  has accepted so far.
\<close>

record processor =
  conf_threshold :: real
  shutdown :: bool
  executor_shutdown :: bool
  executor_submitted :: "frame list"
  last_analysis :: analysis

definition init_processor :: "real \<Rightarrow> processor" where
  "init_processor conf =
     \<lparr>conf_threshold = conf,
      shutdown = False,
      executor_shutdown = False,
      executor_submitted = [],
      last_analysis =
        \<lparr>eye_contact = B, framing = B, posture = B, lighting = B,
         explanation = ''Starting analysis...''\<rparr>\<rparr>"

text \<open>
  What the call of the pose model and the extraction of the keypoints give:
  an exception, no pose (\<^verbatim>\<open>not pose_results or not pose_results[0].keypoints\<close>), or the
  keypoint rows of the first detected person.
\<close>

datatype pose_result = PoseRaises exn | NoPose | Pose "real list list"

text \<open>
  What lies outside the source: the arithmetic of numpy, OpenCV's grey conversion, the
  pose model, and whether \<^verbatim>\<open>asyncio.wait_for\<close> runs into its deadline of 5 seconds for a
  frame.
\<close>

record 'f world =
  arith :: "'f arith"
  rgb2gray :: "pixel \<Rightarrow> 8 word"
  pose_model :: "frame \<Rightarrow> pose_result"
  deadline_exceeded :: "frame \<Rightarrow> bool"

definition analyze_frame_sync :: "'f world \<Rightarrow> processor \<Rightarrow> frame \<Rightarrow> analysis" where
  "analyze_frame_sync w self frame_array =
     (if shutdown self then last_analysis self
      else
        (let height = frame_height frame_array;
             width = frame_width frame_array
         in case pose_model w frame_array of
              PoseRaises e \<Rightarrow> last_analysis self
            | NoPose \<Rightarrow> last_analysis self
            | Pose keypoints \<Rightarrow>
                (let eye_contact_grade =
                       analyze_eye_contact (arith w) (conf_threshold self) keypoints width height;
                     framing_grade =
                       analyze_framing (arith w) (conf_threshold self) keypoints width height;
                     posture_grade = analyze_posture (conf_threshold self) keypoints;
                     lighting_grade = analyze_lighting (arith w) (rgb2gray w) frame_array;
                     explanation_text =
                       generate_explanation eye_contact_grade framing_grade
                         posture_grade lighting_grade
                 in \<lparr>eye_contact = eye_contact_grade,
                     framing = framing_grade,
                     posture = posture_grade,
                     lighting = lighting_grade,
                     explanation = explanation_text\<rparr>)))"

text \<open>
  \<^verbatim>\<open>Executor.submit\<close>, which \<^verbatim>\<open>loop.run_in_executor\<close> calls: after \<^verbatim>\<open>shutdown\<close> it raises
  \<^verbatim>\<open>RuntimeError\<close>, otherwise the work item is accepted.
\<close>

definition executor_submit :: "processor \<Rightarrow> frame \<Rightarrow> exn + processor" where
  "executor_submit self frame_array =
     (if executor_shutdown self
      then Inl (Exception ''cannot schedule new futures after shutdown'')
      else Inr (self\<lparr>executor_submitted := executor_submitted self @ [frame_array]\<rparr>))"

definition analyze_frame_async :: "'f world \<Rightarrow> processor \<Rightarrow> frame \<Rightarrow> processor \<times> analysis" where
  "analyze_frame_async w self frame_array =
     (case executor_submit self frame_array of
        Inl e \<Rightarrow> (self, last_analysis self)
      | Inr self' \<Rightarrow>
          (if deadline_exceeded w frame_array then (self', last_analysis self')
           else (self', analyze_frame_sync w self' frame_array)))"

text \<open>
  \<^verbatim>\<open>_analyze_frame\<close>, the callback of the video forwarder; \<^verbatim>\<open>frame.to_ndarray\<close> gives the
  array or raises.
\<close>

definition analyze_frame :: "'f world \<Rightarrow> processor \<Rightarrow> exn + frame \<Rightarrow> processor" where
  "analyze_frame w self to_ndarray =
     (case to_ndarray of
        Inl e \<Rightarrow> self
      | Inr frame_array \<Rightarrow>
          (case analyze_frame_async w self frame_array of
             (self', analysis) \<Rightarrow> self'\<lparr>last_analysis := analysis\<rparr>))"

definition get_latest_analysis :: "processor \<Rightarrow> analysis" where
  "get_latest_analysis self = last_analysis self"

definition close :: "processor \<Rightarrow> processor" where
  "close self = self\<lparr>shutdown := True, executor_shutdown := True\<rparr>"

section \<open>The websocket server\<close>

type_synonym client = nat

datatype message = Analysis_message analysis | Pong

text \<open>
  \<open>clients\<close> is the set \<^verbatim>\<open>self.clients\<close>, kept as a list without repetitions in the order
  in which the \<^verbatim>\<open>for\<close> loops visit it. \<open>delivered\<close> records every message that a
  \<^verbatim>\<open>client.send\<close> has sent without raising. A broadcast is one uninterrupted pass over the
  clients: that another coroutine registers or unregisters a client while a send is
  awaited is not part of the model.
\<close>

record server =
  clients :: "client list"
  proc :: processor
  running :: bool
  delivered :: "(client \<times> message) list"

text \<open>
  The network and the decoding libraries: \<open>send c m\<close> is \<open>None\<close> when
  \<^verbatim>\<open>client.send\<close> returns and the exception that it raises otherwise; \<open>image_open\<close> is
  \<^verbatim>\<open>Image.open\<close>, \<^verbatim>\<open>np.array\<close> and the conversion to BGR together.
\<close>

record net =
  send :: "client \<Rightarrow> message \<Rightarrow> exn option"
  b64decode :: "string \<Rightarrow> exn + 8 word list"
  image_open :: "8 word list \<Rightarrow> exn + frame"

definition register_client :: "server \<Rightarrow> client \<Rightarrow> server" where
  "register_client self websocket = self\<lparr>clients := List.insert websocket (clients self)\<rparr>"

definition unregister_client :: "server \<Rightarrow> client \<Rightarrow> server" where
  "unregister_client self websocket = self\<lparr>clients := removeAll websocket (clients self)\<rparr>"

text \<open>The first loop of \<^verbatim>\<open>broadcast_analysis\<close>, with its \<^verbatim>\<open>try\<close> around each send.\<close>

fun send_loop :: "net \<Rightarrow> message \<Rightarrow> client list \<Rightarrow> server \<times> client list \<Rightarrow> server \<times> client list" where
  "send_loop n m [] (self, disconnected_clients) = (self, disconnected_clients)"
| "send_loop n m (c # cs) (self, disconnected_clients) =
     (case send n c m of
        None \<Rightarrow>
          send_loop n m cs (self\<lparr>delivered := delivered self @ [(c, m)]\<rparr>, disconnected_clients)
      | Some (ConnectionClosed msg) \<Rightarrow>
          send_loop n m cs (self, List.insert c disconnected_clients)
      | Some e \<Rightarrow>
          send_loop n m cs (self, List.insert c disconnected_clients))"

text \<open>
  \<^verbatim>\<open>broadcast_analysis\<close>. The result is a sum, as for every function of the server that
  could let an exception pass to its caller.
\<close>

definition broadcast_analysis :: "net \<Rightarrow> server \<Rightarrow> analysis \<Rightarrow> exn + server" where
  "broadcast_analysis n self a =
     (if clients self = [] then Inr self
      else
        (let message = Analysis_message a
         in case send_loop n message (clients self) (self, []) of
              (self', disconnected_clients) \<Rightarrow>
                Inr (fold (\<lambda>c s. unregister_client s c) disconnected_clients self')))"

text \<open>The body of the \<^verbatim>\<open>try\<close> of \<^verbatim>\<open>process_frame\<close>: the first exception ends it.\<close>

definition process_frame_body :: "net \<Rightarrow> 'f world \<Rightarrow> server \<Rightarrow> string \<Rightarrow> exn + server" where
  "process_frame_body n w self frame_data =
     (case b64decode n frame_data of
        Inl e \<Rightarrow> Inl e
      | Inr image_data \<Rightarrow>
          (case image_open n image_data of
             Inl e \<Rightarrow> Inl e
           | Inr frame_array \<Rightarrow>
               (case analyze_frame_async w (proc self) frame_array of
                  (p, a) \<Rightarrow> broadcast_analysis n (self\<lparr>proc := p\<rparr>) a)))"

definition error_analysis :: "string \<Rightarrow> analysis" where
  "error_analysis text =
     \<lparr>eye_contact = C, framing = C, posture = C, lighting = C, explanation = text\<rparr>"

definition process_frame :: "net \<Rightarrow> 'f world \<Rightarrow> server \<Rightarrow> string \<Rightarrow> exn + server" where
  "process_frame n w self frame_data =
     (case process_frame_body n w self frame_data of
        Inr self' \<Rightarrow> Inr self'
      | Inl (BinasciiError msg) \<Rightarrow>
          broadcast_analysis n self
            (error_analysis ''Error processing frame - invalid image data'')
      | Inl e \<Rightarrow>
          broadcast_analysis n self
            (error_analysis (''Error processing frame: '' @ str_exn e)))"

section \<open>The quantities of the specification\<close>


definition spec_eye_offset :: "real list \<Rightarrow> real list \<Rightarrow> nat \<Rightarrow> real" where
  "spec_eye_offset left_eye right_eye w =
     \<bar>(left_eye ! 0 + right_eye ! 0) / 2 - real w / 2\<bar> / (real w / 2)"

definition spec_tilt_ratio :: "real list \<Rightarrow> real list \<Rightarrow> real" where
  "spec_tilt_ratio left_eye right_eye =
     (if left_eye ! 0 = right_eye ! 0 then 0
      else \<bar>left_eye ! 1 - right_eye ! 1\<bar> / \<bar>left_eye ! 0 - right_eye ! 0\<bar>)"

definition spec_framing_offset :: "real list \<Rightarrow> real list \<Rightarrow> nat \<Rightarrow> real" where
  "spec_framing_offset left_shoulder right_shoulder w =
     \<bar>(left_shoulder ! 0 + right_shoulder ! 0) / 2 - real w / 2\<bar> / (real w / 2)"

definition spec_frame_ratio :: "real list \<Rightarrow> real list \<Rightarrow> nat \<Rightarrow> real" where
  "spec_frame_ratio left_shoulder right_shoulder w =
     \<bar>left_shoulder ! 0 - right_shoulder ! 0\<bar> / real w"

definition spec_head_y_ratio :: "real list \<Rightarrow> nat \<Rightarrow> real" where
  "spec_head_y_ratio nose h = nose ! 1 / real h"

text \<open>The normalised histogram: the share of the pixels that have intensity \<open>b\<close>.\<close>

definition spec_bin_mass :: "8 word list \<Rightarrow> nat \<Rightarrow> real" where
  "spec_bin_mass gray b = real (length (filter (\<lambda>v. unat v = b) gray)) / real (length gray)"

definition spec_overexposed_ratio :: "8 word list \<Rightarrow> real" where
  "spec_overexposed_ratio gray = (\<Sum>b = 200..255. spec_bin_mass gray b)"

definition spec_underexposed_ratio :: "8 word list \<Rightarrow> real" where
  "spec_underexposed_ratio gray = (\<Sum>b = 0..49. spec_bin_mass gray b)"

text \<open>
  The same ratios computed in an arithmetic \<open>ar\<close>, operation by operation: the two
  x-coordinates are added, the sum is halved, the centre of the frame is subtracted, and
  so on, each result being a number of \<open>ar\<close>. The tilt ratio is 0 unless the computed
  distance of the eyes is positive. The mass of a bin is its count over the sum of all
  counts, and a ratio of exposure is the sum of the masses of its bins.
\<close>

definition computed_eye_offset :: "'f arith \<Rightarrow> real list \<Rightarrow> real list \<Rightarrow> nat \<Rightarrow> 'f" where
  "computed_eye_offset ar left_eye right_eye w =
     f_div ar
       (f_abs ar
         (f_sub ar
           (f_div ar (f_add ar (f_coord ar (left_eye ! 0)) (f_coord ar (right_eye ! 0)))
              (f_py ar 2))
           (f_py ar (real w / 2))))
       (f_py ar (real w / 2))"

definition computed_tilt_ratio :: "'f arith \<Rightarrow> real list \<Rightarrow> real list \<Rightarrow> 'f" where
  "computed_tilt_ratio ar left_eye right_eye =
     (if f_less ar (f_py ar 0)
           (f_abs ar (f_sub ar (f_coord ar (left_eye ! 0)) (f_coord ar (right_eye ! 0))))
      then f_div ar
             (f_abs ar (f_sub ar (f_coord ar (left_eye ! 1)) (f_coord ar (right_eye ! 1))))
             (f_abs ar (f_sub ar (f_coord ar (left_eye ! 0)) (f_coord ar (right_eye ! 0))))
      else f_py ar 0)"

definition computed_framing_offset :: "'f arith \<Rightarrow> real list \<Rightarrow> real list \<Rightarrow> nat \<Rightarrow> 'f" where
  "computed_framing_offset ar left_shoulder right_shoulder w =
     f_div ar
       (f_abs ar
         (f_sub ar
           (f_div ar
              (f_add ar (f_coord ar (left_shoulder ! 0)) (f_coord ar (right_shoulder ! 0)))
              (f_py ar 2))
           (f_py ar (real w / 2))))
       (f_py ar (real w / 2))"

definition computed_frame_ratio :: "'f arith \<Rightarrow> real list \<Rightarrow> real list \<Rightarrow> nat \<Rightarrow> 'f" where
  "computed_frame_ratio ar left_shoulder right_shoulder w =
     f_div ar
       (f_abs ar (f_sub ar (f_coord ar (left_shoulder ! 0)) (f_coord ar (right_shoulder ! 0))))
       (f_py ar (real w))"

definition computed_head_y_ratio :: "'f arith \<Rightarrow> real list \<Rightarrow> nat \<Rightarrow> 'f" where
  "computed_head_y_ratio ar nose h = f_div ar (f_coord ar (nose ! 1)) (f_py ar (real h))"

definition computed_bin_mass :: "'f arith \<Rightarrow> 8 word list \<Rightarrow> nat \<Rightarrow> 'f" where
  "computed_bin_mass ar gray b =
     f_div ar (f_count ar (length (filter (\<lambda>v. unat v = b) gray)))
       (f_sum ar (map (\<lambda>c. f_count ar (length (filter (\<lambda>v. unat v = c) gray))) [0..<256]))"

definition computed_overexposed_ratio :: "'f arith \<Rightarrow> 8 word list \<Rightarrow> 'f" where
  "computed_overexposed_ratio ar gray = f_sum ar (map (computed_bin_mass ar gray) [200..<256])"

definition computed_underexposed_ratio :: "'f arith \<Rightarrow> 8 word list \<Rightarrow> 'f" where
  "computed_underexposed_ratio ar gray = f_sum ar (map (computed_bin_mass ar gray) [0..<50])"

section \<open>Sample inputs\<close>

text \<open>
  Thirteen keypoint rows (nose, eyes, ears, shoulders, elbows, wrists, hips) of a person
  in a frame of 640 by 480: the eyes at the given x-coordinates, the left shoulder with the
  given x-coordinate and confidence.
\<close>

definition sample_pose :: "real \<Rightarrow> real \<Rightarrow> real \<Rightarrow> real \<Rightarrow> real list list" where
  "sample_pose left_eye_x right_eye_x left_shoulder_x left_shoulder_conf =
     [[320, 120, 9/10],
      [left_eye_x, 110, 9/10], [right_eye_x, 110, 9/10],
      [300, 115, 9/10], [340, 115, 9/10],
      [left_shoulder_x, 200, left_shoulder_conf], [400, 200, 9/10],
      [0, 0, 0], [0, 0, 0], [0, 0, 0], [0, 0, 0],
      [260, 210, 9/10], [380, 900, 9/10]]"

text \<open>Three rows without a confidence, as a pose model without visibility gives them.\<close>

definition pose_without_confidence :: "real list list" where
  "pose_without_confidence = [[320, 120], [310, 110], [330, 110]]"


definition red :: "pixel \<Rightarrow> 8 word" where
  "red p = fst p"

definition sample_frame :: frame where
  "sample_frame =
     \<lparr>frame_height = 1, frame_width = 2,
      frame_pixels = [(100, 100, 100), (180, 180, 180)]\<rparr>"



definition sample_world :: "pose_result \<Rightarrow> real world" where
  "sample_world r =
     \<lparr>arith = real_arith, rgb2gray = red, pose_model = (\<lambda>f. r),
      deadline_exceeded = (\<lambda>f. False)\<rparr>"

text \<open>
  A network in which every send to client 2 fails, a decoder that refuses the text
  \<^verbatim>\<open>AA\<close> for its padding, and an image library that identifies no image.
\<close>

definition sample_net :: net where
  "sample_net =
     \<lparr>send = (\<lambda>c m. if c = 2 then Some (ConnectionClosed ''no close frame received or sent'')
                     else None),
      b64decode = (\<lambda>s. if s = ''AA'' then Inl (BinasciiError ''Incorrect padding'') else Inr []),
      image_open = (\<lambda>bs. Inl (Exception ''cannot identify image file''))\<rparr>"

definition sample_server :: server where
  "sample_server =
     \<lparr>clients = [1, 2, 3], proc = init_processor (1/2), running = True, delivered = []\<rparr>"

section \<open>Selection of keypoints\<close>


lemma select_keypoint_missing:
  "length kps \<le> i \<or> length (kps ! i) \<le> 2 \<or> kps ! i ! 2 \<le> t
     \<Longrightarrow> select_keypoint t kps i \<noteq> Inr (Some r)"
  by (auto simp: select_keypoint_def)


text \<open>
  C2. When a keypoint that a dimension requires is absent from the observation (its
  index is beyond the rows), has no confidence, or has a confidence that does not exceed
  the threshold, the grade of that dimension is C, in every arithmetic: eye contact
  requires rows 0, 1, 2 (nose, left eye, right eye), framing rows 0, 5, 6 (nose,
  shoulders), posture rows 5, 6, 11, 12 (shoulders, hips).
\<close>

theorem missing_keypoint_grade_C:
  assumes "length kps \<le> i \<or> length (kps ! i) \<le> 2 \<or> kps ! i ! 2 \<le> t"
  shows "(i \<in> {0, 1, 2} \<longrightarrow> analyze_eye_contact ar t kps w h = C)
       \<and> (i \<in> {0, 5, 6} \<longrightarrow> analyze_framing ar t kps w h = C)
       \<and> (i \<in> {5, 6, 11, 12} \<longrightarrow> analyze_posture t kps = C)"
proof -
  note none = select_keypoint_missing [OF assms]
  have "analyze_eye_contact ar t kps w h = C" if "i \<in> {0, 1, 2}"
    using that none by (auto simp: analyze_eye_contact_def split: sum.splits option.splits)
  moreover have "analyze_framing ar t kps w h = C" if "i \<in> {0, 5, 6}"
    using that none by (auto simp: analyze_framing_def split: sum.splits option.splits)
  moreover have "analyze_posture t kps = C" if "i \<in> {5, 6, 11, 12}"
    using that none by (auto simp: analyze_posture_def split: sum.splits option.splits)
  ultimately show ?thesis by blast
qed

text \<open>
  The left shoulder (row 5) of the sample has confidence 0.3 under a threshold of 0.5:
  framing and posture are graded C, although every ratio of the pose is in the range of A.
\<close>

theorem missing_keypoint_grade_C_witness:
  "sample_pose 310 330 240 (3/10) ! 5 ! 2 \<le> 1/2
   \<and> analyze_framing float32_arith (1/2) (sample_pose 310 330 240 (3/10)) 640 480 = C
   \<and> analyze_posture (1/2) (sample_pose 310 330 240 (3/10)) = C"
  using missing_keypoint_grade_C
    [of "sample_pose 310 330 240 (3/10)" 5 "1/2" float32_arith 640 480]
  by (simp add: sample_pose_def)

section \<open>The two arithmetics\<close>

lemma real_arith_sel:
  "f_coord real_arith = (\<lambda>x. x)" "f_py real_arith = (\<lambda>x. x)" "f_count real_arith = real"
  "f_add real_arith = (+)" "f_sub real_arith = (-)" "f_div real_arith = (/)"
  "f_abs real_arith = abs" "f_less real_arith = (<)" "f_sum real_arith = sum_list"
  by (simp_all add: real_arith_def)





text \<open>Without rounding the computed ratios are the quotients of the specification.\<close>

lemma real_arith_ratios:
  "computed_eye_offset real_arith le re w = spec_eye_offset le re w"
  "computed_tilt_ratio real_arith le re = spec_tilt_ratio le re"
  "computed_framing_offset real_arith ls rs w = spec_framing_offset ls rs w"
  "computed_frame_ratio real_arith ls rs w = spec_frame_ratio ls rs w"
  "computed_head_y_ratio real_arith nose h = spec_head_y_ratio nose h"
  by (simp_all add: computed_eye_offset_def spec_eye_offset_def computed_tilt_ratio_def
      spec_tilt_ratio_def computed_framing_offset_def spec_framing_offset_def
      computed_frame_ratio_def spec_frame_ratio_def computed_head_y_ratio_def
      spec_head_y_ratio_def real_arith_sel)


section \<open>Eye contact\<close>







section \<open>Framing\<close>







section \<open>Posture\<close>



section \<open>Lighting\<close>

lemma unat_byte_less: "unat (v :: 8 word) < 256"
  using unsigned_less [of v] by simp

text \<open>The slices of the normalised histogram hold the masses of the bins 200 to 255 and 0 to 49.\<close>

lemma hist_normalized_drop:
  "f_sum ar (drop 200 (map (\<lambda>h. f_div ar h (f_sum ar (calcHist ar gray))) (calcHist ar gray)))
     = computed_overexposed_ratio ar gray"
  by (simp add: calcHist_def drop_map computed_overexposed_ratio_def
      computed_bin_mass_def [abs_def] comp_def)

lemma hist_normalized_take:
  "f_sum ar (take 50 (map (\<lambda>h. f_div ar h (f_sum ar (calcHist ar gray))) (calcHist ar gray)))
     = computed_underexposed_ratio ar gray"
  by (simp add: calcHist_def take_map computed_underexposed_ratio_def
      computed_bin_mass_def [abs_def] comp_def)

lemma analyze_lighting_gray:
  assumes "cvtColor_RGB2GRAY g f = Inr gray"
  shows "analyze_lighting ar g f =
     (if (100 < np_mean (intensities gray) \<and> np_mean (intensities gray) < 180)
          \<and> np_std (intensities gray) > 30
          \<and> f_less ar (computed_overexposed_ratio ar gray) (f_py ar (1/10))
          \<and> f_less ar (computed_underexposed_ratio ar gray) (f_py ar (1/10)) then A
      else if (80 < np_mean (intensities gray) \<and> np_mean (intensities gray) < 200)
          \<and> np_std (intensities gray) > 20
          \<and> f_less ar (computed_overexposed_ratio ar gray) (f_py ar (2/10))
          \<and> f_less ar (computed_underexposed_ratio ar gray) (f_py ar (2/10)) then B
      else C)"
  unfolding analyze_lighting_def assms Let_def
  by (simp only: sum.case hist_normalized_drop hist_normalized_take)



subsection \<open>Without rounding\<close>

text \<open>Every pixel falls into exactly one bin.\<close>

lemma bin_count_range:
  "(\<Sum>b = lo..<hi. real (length (filter (\<lambda>v :: 8 word. unat v = b) gray)))
     = real (length (filter (\<lambda>v. lo \<le> unat v \<and> unat v < hi) gray))"
proof (induction gray)
  case Nil
  show ?case by simp
next
  case (Cons v gray)
  have "(\<Sum>b = lo..<hi. real (length (filter (\<lambda>u. unat u = b) (v # gray))))
        = (\<Sum>b = lo..<hi. (if unat v = b then 1 else 0)
             + real (length (filter (\<lambda>u. unat u = b) gray)))"
    by (rule sum.cong) auto
  also have "\<dots> = (\<Sum>b = lo..<hi. (if unat v = b then 1 else 0 :: real))
                  + (\<Sum>b = lo..<hi. real (length (filter (\<lambda>u. unat u = b) gray)))"
    by (rule sum.distrib)
  also have "(\<Sum>b = lo..<hi. (if unat v = b then 1 else 0 :: real))
               = (if lo \<le> unat v \<and> unat v < hi then 1 else 0)"
    by (simp add: sum.delta')
  finally show ?case using Cons.IH by simp
qed

lemma sum_list_counts:
  "sum_list (map (\<lambda>c. real (length (filter (\<lambda>v :: 8 word. unat v = c) gray))) [0..<256])
     = real (length gray)"
proof -
  have "filter (\<lambda>v :: 8 word. 0 \<le> unat v \<and> unat v < 256) gray = gray"
    using unat_byte_less by simp
  then show ?thesis
    by (simp only: interv_sum_list_conv_sum_set_nat set_upt bin_count_range)
qed

text \<open>The two ratios of the specification are the shares of the pixels from 200 upwards and below 50.\<close>

lemma spec_overexposed_ratio_count:
  "spec_overexposed_ratio gray
     = real (length (filter (\<lambda>v. 200 \<le> unat v) gray)) / real (length gray)"
proof -
  have r: "{200..255::nat} = {200..<256}" by auto
  have "filter (\<lambda>v :: 8 word. 200 \<le> unat v \<and> unat v < 256) gray
          = filter (\<lambda>v. 200 \<le> unat v) gray"
    using unat_byte_less by simp
  then show ?thesis
    unfolding spec_overexposed_ratio_def spec_bin_mass_def r
    by (simp only: sum_divide_distrib [symmetric] bin_count_range)
qed

lemma spec_underexposed_ratio_count:
  "spec_underexposed_ratio gray
     = real (length (filter (\<lambda>v. unat v < 50) gray)) / real (length gray)"
proof -
  have r: "{0..49::nat} = {0..<50}" by auto
  show ?thesis
    unfolding spec_underexposed_ratio_def spec_bin_mass_def r
    by (simp add: sum_divide_distrib [symmetric] bin_count_range)
qed

text \<open>Without rounding the computed ratios are those of the specification.\<close>

lemma real_arith_exposure:
  "computed_overexposed_ratio real_arith gray = spec_overexposed_ratio gray"
  "computed_underexposed_ratio real_arith gray = spec_underexposed_ratio gray"
proof -
  have m: "computed_bin_mass real_arith gray = spec_bin_mass gray"
    by (rule ext) (simp add: computed_bin_mass_def spec_bin_mass_def real_arith_sel
        sum_list_counts)
  have r: "{200..255::nat} = {200..<256}" "{0..49::nat} = {0..<50}" by auto
  show "computed_overexposed_ratio real_arith gray = spec_overexposed_ratio gray"
    unfolding computed_overexposed_ratio_def spec_overexposed_ratio_def m r real_arith_sel
    by (simp only: interv_sum_list_conv_sum_set_nat set_upt)
  show "computed_underexposed_ratio real_arith gray = spec_underexposed_ratio gray"
    unfolding computed_underexposed_ratio_def spec_underexposed_ratio_def m r real_arith_sel
    by (simp only: interv_sum_list_conv_sum_set_nat set_upt)
qed

text \<open>
  The sample frame has two pixels, of intensity 100 and 180: brightness 140, contrast 40,
  no pixel in the bins from 200 or below 50.
\<close>

lemma sample_frame_gray: "cvtColor_RGB2GRAY red sample_frame = Inr [100, 180]"
  by (simp add: cvtColor_RGB2GRAY_def sample_frame_def red_def)

lemma sample_frame_statistics:
  "np_mean (intensities [100, 180]) = 140"
  "np_std (intensities [100, 180]) = 40"
  "spec_overexposed_ratio [100, 180] = 0"
  "spec_underexposed_ratio [100, 180] = 0"
  by (simp_all add: np_std_def np_mean_def intensities_def real_sqrt_unique
      spec_overexposed_ratio_count spec_underexposed_ratio_count)

lemma sample_frame_lighting: "analyze_lighting real_arith red sample_frame = A"
  by (simp add: analyze_lighting_gray [OF sample_frame_gray] sample_frame_statistics
      real_arith_exposure real_arith_sel)

subsection \<open>In float32\<close>















section \<open>Explanation\<close>

lemma eye_sentence:
  "(if e = A then ''Great eye contact! You're looking directly at the camera.''
    else if e = B then ''Good eye contact. Try to look more directly at the camera.''
    else ''Focus on looking directly at the camera for better engagement.'')
   = canned_sentence Eye_contact e"
  by (cases e) simp_all

lemma framing_sentence:
  "(if e = A then ''Perfect framing! You're well positioned in the frame.''
    else if e = B then ''Good framing. Consider adjusting your position slightly.''
    else ''Try to center yourself better in the frame.'')
   = canned_sentence Framing e"
  by (cases e) simp_all

lemma posture_sentence:
  "(if e = A then ''Excellent posture! Keep your shoulders back and head up.''
    else if e = B then ''Good posture. Try to sit up a bit straighter.''
    else ''Focus on maintaining better posture - shoulders back, head up.'')
   = canned_sentence Posture e"
  by (cases e) simp_all

lemma lighting_sentence:
  "(if e = A then ''Perfect lighting! The camera is picking up your face clearly.''
    else if e = B then ''Good lighting. Consider adjusting your lighting slightly.''
    else ''Try to improve your lighting - ensure your face is well lit.'')
   = canned_sentence Lighting e"
  by (cases e) simp_all

lemma distinct_all_sentences: "distinct all_sentences"
  by (simp add: all_sentences_def)

text \<open>
  C6. For four grades the explanation is the sentence for eye contact, the sentence for
  framing, the sentence for posture and the sentence for lighting, in this order, with a
  single space between two sentences. Each is the canned sentence of its dimension and
  grade; there are twelve canned sentences, and no two of them are equal. The explanation
  is a function of the four grades.
\<close>

theorem explanation_is_concatenation:
  "generate_explanation e f p l =
     canned_sentence Eye_contact e @ '' '' @ canned_sentence Framing f @ '' ''
       @ canned_sentence Posture p @ '' '' @ canned_sentence Lighting l
   \<and> length all_sentences = 12 \<and> distinct all_sentences
   \<and> canned_sentence d g \<in> set all_sentences"
proof -
  have "generate_explanation e f p l =
     canned_sentence Eye_contact e @ '' '' @ canned_sentence Framing f @ '' ''
       @ canned_sentence Posture p @ '' '' @ canned_sentence Lighting l"
    unfolding generate_explanation_def Let_def
    by (simp only: eye_sentence framing_sentence posture_sentence lighting_sentence
        append_Nil append_Cons join.simps)
  moreover have "length all_sentences = 12"
    by (simp add: all_sentences_def)
  moreover have "canned_sentence d g \<in> set all_sentences"
    unfolding all_sentences_def by (cases d; cases g) simp_all
  ultimately show ?thesis using distinct_all_sentences by blast
qed

section \<open>Fallback to the stored analysis\<close>

text \<open>
  C1, as the code has it. When the wait for the worker runs into the deadline, when the
  pose model finds no pose, or when the estimation raises an exception, the analysis
  returns the stored result, and the stored result that \<open>get_latest_analysis\<close> shows is
  the same after the call, also after the callback of the forwarder has stored what the
  call returned.
\<close>

theorem fallback_returns_previous:
  assumes "deadline_exceeded w f \<or> pose_model w f = NoPose \<or> (\<exists>e. pose_model w f = PoseRaises e)"
  shows "snd (analyze_frame_async w p f) = get_latest_analysis p
       \<and> get_latest_analysis (fst (analyze_frame_async w p f)) = get_latest_analysis p
       \<and> get_latest_analysis (analyze_frame w p (Inr f)) = get_latest_analysis p"
  using assms
  by (auto simp: analyze_frame_async_def analyze_frame_def analyze_frame_sync_def
      executor_submit_def get_latest_analysis_def Let_def split: sum.splits)

text \<open>No pose in the sample frame: the analysis is the one stored at construction.\<close>

theorem fallback_returns_previous_witness:
  "pose_model (sample_world NoPose) sample_frame = NoPose
   \<and> snd (analyze_frame_async (sample_world NoPose) (init_processor (1/2)) sample_frame)
       = \<lparr>eye_contact = B, framing = B, posture = B, lighting = B,
          explanation = ''Starting analysis...''\<rparr>
   \<and> get_latest_analysis
         (analyze_frame (sample_world NoPose) (init_processor (1/2)) (Inr sample_frame))
       = \<lparr>eye_contact = B, framing = B, posture = B, lighting = B,
          explanation = ''Starting analysis...''\<rparr>"
  using fallback_returns_previous [of "sample_world NoPose" sample_frame "init_processor (1/2)"]
  by (simp add: sample_world_def init_processor_def get_latest_analysis_def)

text \<open>
  An exception inside the classification does not lead to the stored result. The rows of
  \<open>pose_without_confidence\<close> have no third entry, so the read of the confidence raises in
  \<^verbatim>\<open>_analyze_eye_contact\<close> and in \<^verbatim>\<open>_analyze_framing\<close>; each handler returns C, and the
  analysis returns, and the callback stores, a new result that differs from the stored one.
\<close>

theorem fallback_on_classification_exception_counterexample:
  "select_keypoint (1/2) pose_without_confidence 0
       = Inl (Exception ''index 2 is out of bounds'')
   \<and> snd (analyze_frame_async (sample_world (Pose pose_without_confidence))
            (init_processor (1/2)) sample_frame)
       = \<lparr>eye_contact = C, framing = C, posture = C, lighting = A,
          explanation = generate_explanation C C C A\<rparr>
   \<and> snd (analyze_frame_async (sample_world (Pose pose_without_confidence))
            (init_processor (1/2)) sample_frame)
       \<noteq> get_latest_analysis (init_processor (1/2))
   \<and> get_latest_analysis
         (analyze_frame (sample_world (Pose pose_without_confidence))
            (init_processor (1/2)) (Inr sample_frame))
       \<noteq> get_latest_analysis (init_processor (1/2))"
proof -
  have s: "select_keypoint (1/2) pose_without_confidence 0
             = Inl (Exception ''index 2 is out of bounds'')"
    by (simp add: select_keypoint_def pose_without_confidence_def)
  have g: "analyze_eye_contact ar (1/2) pose_without_confidence wd ht = C"
    "analyze_framing ar (1/2) pose_without_confidence wd ht = C" for ar :: "real arith" and wd ht
    by (simp_all add: analyze_eye_contact_def analyze_framing_def s)
  have q: "analyze_posture (1/2) pose_without_confidence = C"
    by (simp add: analyze_posture_def select_keypoint_def pose_without_confidence_def)
  have r: "snd (analyze_frame_async (sample_world (Pose pose_without_confidence))
            (init_processor (1/2)) sample_frame)
       = \<lparr>eye_contact = C, framing = C, posture = C, lighting = A,
          explanation = generate_explanation C C C A\<rparr>"
    by (simp add: analyze_frame_async_def executor_submit_def analyze_frame_sync_def
        sample_world_def init_processor_def sample_frame_lighting g q Let_def
        sample_frame_def [THEN arg_cong [of _ _ frame_width]]
        sample_frame_def [THEN arg_cong [of _ _ frame_height]])
  have i: "get_latest_analysis (init_processor (1/2))
       = \<lparr>eye_contact = B, framing = B, posture = B, lighting = B,
          explanation = ''Starting analysis...''\<rparr>"
    by (simp add: get_latest_analysis_def init_processor_def)
  have a: "get_latest_analysis
         (analyze_frame (sample_world (Pose pose_without_confidence))
            (init_processor (1/2)) (Inr sample_frame))
       = snd (analyze_frame_async (sample_world (Pose pose_without_confidence))
            (init_processor (1/2)) sample_frame)"
    by (simp add: analyze_frame_def get_latest_analysis_def split: prod.splits)
  show ?thesis
    unfolding a r i using s by simp
qed

section \<open>Shutdown\<close>

lemma analyze_frame_async_closed:
  assumes "executor_shutdown s"
  shows "analyze_frame_async w s f = (s, last_analysis s)"
  using assms by (simp add: analyze_frame_async_def executor_submit_def)

lemma analyze_frame_closed:
  assumes "executor_shutdown s"
  shows "analyze_frame w s x = s"
  using assms by (cases x) (simp_all add: analyze_frame_def analyze_frame_async_closed)

text \<open>
  C9. After \<open>close\<close>, an analysis of any frame returns the stored result and leaves the
  processor as it is: the executor refuses the work item, so the list of accepted work
  does not grow. Work that reached a worker before the shutdown returns the stored result
  without a call of the pose model. This holds for every later call, since every call of
  the callback leaves the closed processor unchanged.
\<close>

theorem after_shutdown_no_dispatch:
  "analyze_frame_async w (close p) f = (close p, last_analysis p)
   \<and> executor_submitted (fst (analyze_frame_async w (close p) f)) = executor_submitted p
   \<and> (\<exists>e. executor_submit (close p) f = Inl e)
   \<and> analyze_frame_sync w (close p) f = last_analysis p
   \<and> fold (\<lambda>x s. analyze_frame w s x) xs (close p) = close p"
proof -
  have c: "executor_shutdown (close p)" "last_analysis (close p) = last_analysis p"
    "shutdown (close p)" "executor_submitted (close p) = executor_submitted p"
    by (simp_all add: close_def)
  have "fold (\<lambda>x s. analyze_frame w s x) xs (close p) = close p"
    by (induction xs) (simp_all add: analyze_frame_closed c)
  then show ?thesis
    by (simp add: analyze_frame_async_closed c analyze_frame_sync_def executor_submit_def)
qed

section \<open>Broadcast\<close>

lemma send_loop_result:
  "send_loop n m cs (s, d) =
     (s\<lparr>delivered := delivered s @ map (\<lambda>c. (c, m)) (filter (\<lambda>c. send n c m = None) cs)\<rparr>,
      fold List.insert (filter (\<lambda>c. send n c m \<noteq> None) cs) d)"
proof (induction cs arbitrary: s d)
  case Nil
  show ?case by simp
next
  case (Cons c cs)
  show ?case
    by (simp add: Cons.IH split: option.splits exn.splits)
qed

lemma fold_unregister_client:
  "fold (\<lambda>c s. unregister_client s c) ds s
     = s\<lparr>clients := filter (\<lambda>c. c \<notin> set ds) (clients s)\<rparr>"
proof (induction ds arbitrary: s)
  case Nil
  show ?case by simp
next
  case (Cons d ds)
  show ?case
  proof -
    have "filter (\<lambda>c. c \<notin> set ds) (removeAll d (clients s))
            = filter (\<lambda>c. c \<notin> set (d # ds)) (clients s)"
      unfolding removeAll_filter_not_eq filter_filter
      by (rule filter_cong) auto
    then show ?thesis
      by (simp add: Cons.IH) (simp add: unregister_client_def)
  qed
qed

lemma set_fold_insert: "set (fold List.insert xs d) = set xs \<union> set d"
  by (induction xs arbitrary: d) auto

text \<open>
  What a broadcast does: the clients whose send returns receive the message, in the order
  of the loop, and they are the clients that remain.
\<close>

lemma broadcast_analysis_result:
  "broadcast_analysis n s a =
     Inr (s\<lparr>delivered := delivered s @ map (\<lambda>c. (c, Analysis_message a))
                (filter (\<lambda>c. send n c (Analysis_message a) = None) (clients s)),
            clients := filter (\<lambda>c. send n c (Analysis_message a) = None) (clients s)\<rparr>)"
proof (cases "clients s = []")
  case True
  then show ?thesis by (simp add: broadcast_analysis_def)
next
  case False
  have "filter (\<lambda>c. c \<notin> set (fold List.insert
            (filter (\<lambda>c. send n c (Analysis_message a) \<noteq> None) (clients s)) [])) (clients s)
        = filter (\<lambda>c. send n c (Analysis_message a) = None) (clients s)"
    by (rule filter_cong) (auto simp: set_fold_insert)
  with False show ?thesis
    by (simp add: broadcast_analysis_def send_loop_result fold_unregister_client Let_def)
qed

text \<open>
  C7. When the send to exactly one of the K clients raises, the broadcast returns without
  an exception, each of the other K - 1 clients has received the message once, and the
  client whose send raised is no longer among the clients, which are K - 1 now.
\<close>

theorem broadcast_one_failure:
  assumes "distinct (clients s)" and "c \<in> set (clients s)"
    and "send n c (Analysis_message a) \<noteq> None"
    and "\<forall>c' \<in> set (clients s). c' \<noteq> c \<longrightarrow> send n c' (Analysis_message a) = None"
  shows "\<exists>s'. broadcast_analysis n s a = Inr s'
       \<and> clients s' = removeAll c (clients s)
       \<and> c \<notin> set (clients s')
       \<and> length (clients s') = length (clients s) - 1
       \<and> delivered s' = delivered s @ map (\<lambda>c'. (c', Analysis_message a)) (removeAll c (clients s))
       \<and> (\<forall>c' \<in> set (clients s). c' \<noteq> c \<longrightarrow> (c', Analysis_message a) \<in> set (delivered s'))"
proof -
  have f: "filter (\<lambda>c. send n c (Analysis_message a) = None) (clients s) = removeAll c (clients s)"
    unfolding removeAll_filter_not_eq
    by (rule filter_cong) (use assms(3,4) in auto)
  have l: "length (removeAll c (clients s)) = length (clients s) - 1"
    using assms(1,2) by (simp add: distinct_remove1_removeAll [symmetric] length_remove1)
  show ?thesis
    unfolding broadcast_analysis_result f
    by (auto simp: l)
qed

text \<open>
  Clients 1, 2 and 3, of which the connection of client 2 is closed: clients 1 and 3
  receive the analysis and remain.
\<close>

theorem broadcast_one_failure_witness:
  "distinct (clients sample_server) \<and> 2 \<in> set (clients sample_server)
   \<and> send sample_net 2 (Analysis_message (last_analysis (proc sample_server))) \<noteq> None
   \<and> send sample_net 1 (Analysis_message (last_analysis (proc sample_server))) = None
   \<and> send sample_net 3 (Analysis_message (last_analysis (proc sample_server))) = None
   \<and> (\<exists>s'. broadcast_analysis sample_net sample_server (last_analysis (proc sample_server)) = Inr s'
        \<and> clients s' = [1, 3]
        \<and> delivered s' = [(1, Analysis_message (last_analysis (proc sample_server))),
                          (3, Analysis_message (last_analysis (proc sample_server)))])"
  using broadcast_one_failure [of sample_server 2 sample_net "last_analysis (proc sample_server)"]
  by (auto simp add: sample_server_def sample_net_def)

section \<open>Malformed frames\<close>

text \<open>
  C8. When the base64 decoding of the payload fails, or the decoded bytes are no image
  that the library can open, \<open>process_frame\<close> broadcasts an analysis with the four grades
  C and an explanation that begins with \<^verbatim>\<open>Error processing frame\<close>; it does so with
  \<open>broadcast_analysis\<close>, as for a computed analysis, so that every client whose send
  returns receives it; and it returns without an exception.
\<close>

theorem malformed_frame_all_C:
  assumes "(\<exists>e. b64decode n d = Inl e)
         \<or> (\<exists>bytes e. b64decode n d = Inr bytes \<and> image_open n bytes = Inl e)"
  shows "\<exists>expl s'. process_frame n w s d = broadcast_analysis n s (error_analysis expl)
       \<and> process_frame n w s d = Inr s'
       \<and> take 22 expl = ''Error processing frame''
       \<and> eye_contact (error_analysis expl) = C \<and> framing (error_analysis expl) = C
       \<and> posture (error_analysis expl) = C \<and> lighting (error_analysis expl) = C
       \<and> explanation (error_analysis expl) = expl
       \<and> delivered s' = delivered s @ map (\<lambda>c. (c, Analysis_message (error_analysis expl)))
            (filter (\<lambda>c. send n c (Analysis_message (error_analysis expl)) = None) (clients s))"
proof -
  from assms obtain e where body: "process_frame_body n w s d = Inl e"
    by (auto simp: process_frame_body_def)
  define expl where "expl =
    (case e of BinasciiError msg \<Rightarrow> ''Error processing frame - invalid image data''
     | _ \<Rightarrow> ''Error processing frame: '' @ str_exn e)"
  have p: "process_frame n w s d = broadcast_analysis n s (error_analysis expl)"
    by (simp add: process_frame_def body expl_def split: exn.splits)
  have t: "take 22 expl = ''Error processing frame''"
    by (simp add: expl_def split: exn.splits)
  define s' where "s' =
    s\<lparr>delivered := delivered s @ map (\<lambda>c. (c, Analysis_message (error_analysis expl)))
          (filter (\<lambda>c. send n c (Analysis_message (error_analysis expl)) = None) (clients s)),
      clients := filter (\<lambda>c. send n c (Analysis_message (error_analysis expl)) = None) (clients s)\<rparr>"
  have b: "broadcast_analysis n s (error_analysis expl) = Inr s'"
    unfolding s'_def by (rule broadcast_analysis_result)
  have d: "delivered s' = delivered s @ map (\<lambda>c. (c, Analysis_message (error_analysis expl)))
            (filter (\<lambda>c. send n c (Analysis_message (error_analysis expl)) = None) (clients s))"
    by (simp add: s'_def)
  have g: "eye_contact (error_analysis expl) = C" "framing (error_analysis expl) = C"
    "posture (error_analysis expl) = C" "lighting (error_analysis expl) = C"
    "explanation (error_analysis expl) = expl"
    by (simp_all add: error_analysis_def)
  from p b t g d show ?thesis by metis
qed

text \<open>
  The payload \<^verbatim>\<open>AA\<close> is refused by the decoder, the payload \<^verbatim>\<open>AAAA\<close> decodes to bytes that
  are no image: in both cases clients 1 and 3 receive an analysis with four grades C.
\<close>

theorem malformed_frame_all_C_witness:
  "b64decode sample_net ''AA'' = Inl (BinasciiError ''Incorrect padding'')
   \<and> process_frame sample_net (sample_world NoPose) sample_server ''AA''
       = Inr (sample_server\<lparr>clients := [1, 3],
           delivered :=
             [(1, Analysis_message (error_analysis ''Error processing frame - invalid image data'')),
              (3, Analysis_message (error_analysis ''Error processing frame - invalid image data''))]\<rparr>)
   \<and> (\<exists>s'. process_frame sample_net (sample_world NoPose) sample_server ''AAAA'' = Inr s'
         \<and> delivered s' =
             [(1, Analysis_message
                  (error_analysis ''Error processing frame: cannot identify image file'')),
              (3, Analysis_message
                  (error_analysis ''Error processing frame: cannot identify image file''))])"
  using malformed_frame_all_C [of sample_net "''AA''" "sample_world NoPose" sample_server]
  by (simp add: sample_net_def sample_server_def process_frame_def process_frame_body_def
      broadcast_analysis_result)

end
